theory Spec2Isabelle
  imports Complex_Main "HOL-Library.Sublist"
begin

section \<open>Python values and effects used by \<open>agents.py\<close>\<close>

text \<open>
  An exception object, as far as \<open>agents.py\<close> looks at it: \<open>str(type(e))\<close>,
  \<open>str(e)\<close>, and whether it is an instance of \<open>Exception\<close>, which is what the two
  \<open>except Exception\<close> clauses (lines 121 and 266) test. \<open>ImportError\<close>, \<open>ValueError\<close>
  and the errors of the language-model and search libraries are instances;
  \<open>KeyboardInterrupt\<close>, \<open>SystemExit\<close> and \<open>asyncio.CancelledError\<close> derive from
  \<open>BaseException\<close> only and are not.
\<close>

record exn =
  exn_type :: string
  exn_msg :: string
  is_exception :: bool

definition ImportError :: "string \<Rightarrow> exn" where
  "ImportError m =
     \<lparr>exn_type = ''<class 'ImportError'>'', exn_msg = m, is_exception = True\<rparr>"

definition ValueError :: "string \<Rightarrow> exn" where
  "ValueError m =
     \<lparr>exn_type = ''<class 'ValueError'>'', exn_msg = m, is_exception = True\<rparr>"

text \<open>
  The observable effects, in the order they happen: \<open>time.sleep(t)\<close>, \<open>print(s)\<close> and
  one call \<open>linkup_client.search(query, depth, output_type)\<close> to the search provider.
\<close>

datatype event =
  Sleep rat
| Print string
| Search string string string

text \<open>The process state: the module-level \<open>_global_search_count\<close> and the effects so far.\<close>

record state =
  search_count :: int
  trace :: "event list"

text \<open>
  What the code consumes from outside. \<open>linkup_available\<close> is the module constant
  \<open>LINKUP_AVAILABLE\<close>, \<open>getenv\<close> is \<open>os.getenv\<close>. \<open>linkup_search\<close> is
  \<open>LinkupClient(api_key).search\<close> followed by \<open>str\<close> (the constructor only stores the
  key): given the effects so far and the arguments, it raises or answers. \<open>kickoff\<close> is
  the behaviour of the two agents inside \<open>crew.kickoff()\<close>, with the construction of
  the agents, tasks and crew that precedes it: given the effects so far and the query,
  the tool calls \<open>(query, depth, output_type)\<close> the search agent issues, and then
  either an exception or \<open>result.raw\<close>. What a tool call returns is determined by
  the world and the state, so an agent that chooses its next call from the earlier
  answers is one of these scripts; every property below is stated for all of them.
\<close>

record world =
  linkup_available :: bool
  getenv :: "string \<Rightarrow> string option"
  linkup_search :: "event list \<Rightarrow> string \<Rightarrow> string \<Rightarrow> string \<Rightarrow> exn + string"
  kickoff :: "event list \<Rightarrow> string \<Rightarrow> (string \<times> string \<times> string) list \<times> (exn + string)"

text \<open>Python's \<open>not v\<close> for the result of \<open>os.getenv\<close>: \<open>None\<close> and \<open>""\<close> are falsy.\<close>

definition falsy :: "string option \<Rightarrow> bool" where
  "falsy v = (case v of None \<Rightarrow> True | Some s \<Rightarrow> s = [])"

text \<open>Decimal text of an integer, as an f-string prints it.\<close>

fun str_nat :: "nat \<Rightarrow> string" where
  "str_nat n =
     (if n < 10 then [''0123456789'' ! n]
      else str_nat (n div 10) @ [''0123456789'' ! (n mod 10)])"

declare str_nat.simps [simp del]

definition str_int :: "int \<Rightarrow> string" where
  "str_int i = (if i < 0 then CHR ''-'' # str_nat (nat (- i)) else str_nat (nat i))"

text \<open>\<open>sub in s\<close> on strings.\<close>

fun contains :: "string \<Rightarrow> string \<Rightarrow> bool" where
  "contains sub [] = (sub = [])"
| "contains sub (c # cs) = (prefix sub (c # cs) \<or> contains sub cs)"

text \<open>\<open>s.lower()\<close>, on ASCII letters.\<close>

definition lower_char :: "char \<Rightarrow> char" where
  "lower_char c =
     (case map_of (zip ''ABCDEFGHIJKLMNOPQRSTUVWXYZ'' ''abcdefghijklmnopqrstuvwxyz'') c of
        Some l \<Rightarrow> l
      | None \<Rightarrow> c)"

definition lower :: "string \<Rightarrow> string" where
  "lower s = map lower_char s"

definition sleep :: "rat \<Rightarrow> state \<Rightarrow> state" where
  "sleep t st = st\<lparr>trace := trace st @ [Sleep t]\<rparr>"

definition print :: "string \<Rightarrow> state \<Rightarrow> state" where
  "print s st = st\<lparr>trace := trace st @ [Print s]\<rparr>"

section \<open>The search counter\<close>

definition max_searches :: int where
  "max_searches = 5"

definition reset_search_counter :: "state \<Rightarrow> state" where
  "reset_search_counter st = st\<lparr>search_count := 0\<rparr>"

definition increment_search_counter :: "state \<Rightarrow> int \<times> state" where
  "increment_search_counter st =
     (let st1 = st\<lparr>search_count := search_count st + 1\<rparr> in (search_count st1, st1))"

definition get_search_count :: "state \<Rightarrow> int" where
  "get_search_count st = search_count st"

section \<open>\<open>LinkUpSearchTool\<close>\<close>

definition LinkUpSearchTool_init :: "world \<Rightarrow> exn + unit" where
  "LinkUpSearchTool_init w =
     (if \<not> linkup_available w
      then Inl (ImportError
        ''LinkupClient is not available. Please install linkup-sdk: pip install linkup-sdk'')
      else Inr ())"

definition truncation_marker :: "int \<Rightarrow> string \<Rightarrow> string" where
  "truncation_marker new_count search_depth =
     ''\<newline>... [Results truncated at 4000 chars for efficiency, search '' @ str_int new_count
       @ '' using '' @ search_depth @ '' depth]''"

definition search_header :: "int \<Rightarrow> string \<Rightarrow> string" where
  "search_header new_count search_depth =
     ''Search '' @ str_int new_count @ ''/'' @ str_int max_searches
       @ '' ('' @ search_depth @ '' depth):\<newline>''"

definition limit_reached_text :: string where
  "limit_reached_text =
     ''Maximum search limit ('' @ str_int max_searches
       @ '') reached. Please analyze existing results.''"

text \<open>Line 102: the depth of the search that would be number \<open>current_count + 1\<close>.\<close>

definition search_depth_of :: "int \<Rightarrow> string" where
  "search_depth_of current_count =
     (if (current_count + 1) mod 3 = 0 then ''deep'' else ''standard'')"

text \<open>
  \<open>LinkUpSearchTool._run(query, depth, output_type)\<close>; \<open>Inl e\<close> is \<open>e\<close> leaving the
  method. The \<open>except Exception\<close> clause of line 121 turns an \<open>Exception\<close> of the
  provider into text and lets anything else pass; the counter is incremented only
  after the provider has answered.
\<close>

definition LinkUpSearchTool_run ::
  "world \<Rightarrow> string \<Rightarrow> string \<Rightarrow> string \<Rightarrow> state \<Rightarrow> (exn + string) \<times> state" where
  "LinkUpSearchTool_run w query depth output_type st =
     (if \<not> linkup_available w then
        (Inr ''Error: LinkupClient is not available. Please install linkup-sdk: pip install linkup-sdk'',
         st)
      else
        let current_count = get_search_count st in
        if current_count \<ge> max_searches then (Inr limit_reached_text, st)
        else
          let api_key = getenv w ''LINKUP_API_KEY'' in
          if falsy api_key then
            (Inr ''Error: LINKUP_API_KEY environment variable not set'', st)
          else
            let st1 = sleep (3 / 2) st;
                search_depth = search_depth_of current_count;
                st2 = st1\<lparr>trace := trace st1 @ [Search query search_depth output_type]\<rparr>
            in case linkup_search w (trace st1) query search_depth output_type of
                 Inl e \<Rightarrow>
                   if is_exception e
                   then (Inr (''Error occurred while searching: '' @ exn_msg e), st2)
                   else (Inl e, st2)
               | Inr response_str \<Rightarrow>
                   let (new_count, st3) = increment_search_counter st2;
                       response_str' =
                         (if length response_str > 4000
                          then take 4000 response_str @ truncation_marker new_count search_depth
                          else response_str)
                   in (Inr (search_header new_count search_depth @ response_str'), st3))"

section \<open>The crew\<close>

text \<open>
  \<open>create_research_crew\<close>: the three checks and the construction of the tool. The
  agents, tasks and crew it builds are configuration for \<open>kickoff\<close>.
\<close>

definition create_research_crew :: "world \<Rightarrow> string \<Rightarrow> exn + unit" where
  "create_research_crew w query =
     (if \<not> linkup_available w then
        Inl (ImportError
          ''LinkupClient is not available. Please install linkup-sdk: pip install linkup-sdk'')
      else if falsy (getenv w ''GEMINI_API_KEY'') then
        Inl (ValueError ''GEMINI_API_KEY environment variable not set'')
      else if falsy (getenv w ''LINKUP_API_KEY'') then
        Inl (ValueError ''LINKUP_API_KEY environment variable not set'')
      else LinkUpSearchTool_init w)"

text \<open>
  The tool calls of one kickoff, in order. Each returns text to the agent; an
  exception that leaves a tool call ends the calls and leaves the kickoff.
\<close>

fun run_tool_calls ::
  "world \<Rightarrow> (string \<times> string \<times> string) list \<Rightarrow> state \<Rightarrow> (exn + string list) \<times> state" where
  "run_tool_calls w [] st = (Inr [], st)"
| "run_tool_calls w ((query, depth, output_type) # calls) st =
     (case LinkUpSearchTool_run w query depth output_type st of
        (Inl e, st1) \<Rightarrow> (Inl e, st1)
      | (Inr r, st1) \<Rightarrow>
          (case run_tool_calls w calls st1 of
             (Inl e, st2) \<Rightarrow> (Inl e, st2)
           | (Inr rs, st2) \<Rightarrow> (Inr (r # rs), st2)))"

definition crew_kickoff :: "world \<Rightarrow> string \<Rightarrow> state \<Rightarrow> (exn + string) \<times> state" where
  "crew_kickoff w query st =
     (let (calls, outcome) = kickoff w (trace st) query
      in case run_tool_calls w calls st of
           (Inl e, st1) \<Rightarrow> (Inl e, st1)
         | (Inr rs, st1) \<Rightarrow> (outcome, st1))"

section \<open>\<open>run_research\<close>\<close>

definition max_retries :: nat where
  "max_retries = 3"

definition retry_delay :: nat where
  "retry_delay = 3"

datatype flow = Return string | Continue

definition limited_content_text :: "string \<Rightarrow> string" where
  "limited_content_text raw =
     ''Research completed but content seems limited. Here's what was found:\<newline>\<newline>'' @ raw
       @ ''\<newline>\<newline>[Note: For more comprehensive results, try refining your query or checking API limits]''"

definition rate_limited_text :: string where
  "rate_limited_text =
     ''API Rate Limited: The Gemini API is currently overloaded. Please try again in a few minutes. For comprehensive research, consider:\<newline>\<newline>1. Breaking your query into smaller, more specific questions\<newline>2. Trying again during off-peak hours\<newline>3. Using more specific search terms''"

definition import_error_text :: "exn \<Rightarrow> string" where
  "import_error_text e =
     ''Import Error: '' @ exn_msg e @ ''\<newline>Please install linkup-sdk: pip install linkup-sdk''"

definition configuration_error_text :: "exn \<Rightarrow> string" where
  "configuration_error_text e = ''Configuration Error: '' @ exn_msg e"

definition unknown_error_text :: "exn \<Rightarrow> string" where
  "unknown_error_text e =
     ''Error: '' @ exn_msg e
       @ ''\<newline>\<newline>Troubleshooting tips:\<newline>1. Try simplifying your query\<newline>2. Check your API key configurations\<newline>3. Ensure stable internet connection\<newline>4. Try breaking complex queries into smaller parts''"

definition max_retries_text :: string where
  "max_retries_text =
     ''Maximum retries exceeded. Please try again later or contact support if the issue persists.''"

text \<open>Lines 250--255: the reset and the delay at the start of an attempt.\<close>

definition begin_attempt :: "nat \<Rightarrow> state \<Rightarrow> state" where
  "begin_attempt attempt st =
     (let st1 = reset_search_counter st
      in if attempt > 0 then sleep (of_nat (retry_delay * attempt)) st1 else st1)"

text \<open>Lines 249--264: the \<open>try\<close> block; \<open>Inl e\<close> is \<open>e\<close> raised inside it.\<close>

definition attempt_body :: "world \<Rightarrow> string \<Rightarrow> nat \<Rightarrow> state \<Rightarrow> (exn + flow) \<times> state" where
  "attempt_body w query attempt st =
     (let st1 = begin_attempt attempt st
      in case create_research_crew w query of
           Inl e \<Rightarrow> (Inl e, st1)
         | Inr crew \<Rightarrow>
             (case crew_kickoff w query st1 of
                (Inl e, st2) \<Rightarrow> (Inl e, st2)
              | (Inr raw, st2) \<Rightarrow>
                  if length raw < 500 then (Inr (Return (limited_content_text raw)), st2)
                  else (Inr (Return raw), st2)))"

definition is_rate_limit :: "exn \<Rightarrow> bool" where
  "is_rate_limit e =
     (let error_msg = lower (exn_msg e)
      in contains ''overloaded'' error_msg \<or> contains ''rate limit'' error_msg
           \<or> contains ''quota'' error_msg)"

text \<open>Lines 267--289: the body of the \<open>except Exception as e\<close> clause.\<close>

definition handle_exception :: "nat \<Rightarrow> exn \<Rightarrow> state \<Rightarrow> (exn + flow) \<times> state" where
  "handle_exception attempt e st =
     (if is_rate_limit e then
        (if attempt < max_retries - 1 then
           let st1 = print (''Rate limit encountered, waiting ''
                       @ str_nat (retry_delay * (attempt + 1)) @ '' seconds...'') st;
               st2 = sleep (of_nat (retry_delay * (attempt + 1))) st1
           in (Inr Continue, st2)
         else (Inr (Return rate_limited_text), st))
      else if attempt < max_retries - 1 then
        let st1 = print (''Error on attempt '' @ str_nat (attempt + 1) @ '', retrying in ''
                    @ str_nat retry_delay @ '' seconds...'') st;
            st2 = sleep (of_nat retry_delay) st1
        in (Inr Continue, st2)
      else if contains ''ImportError'' (exn_type e) then (Inr (Return (import_error_text e)), st)
      else if contains ''ValueError'' (exn_type e) then
        (Inr (Return (configuration_error_text e)), st)
      else (Inr (Return (unknown_error_text e)), st))"

text \<open>
  One iteration of the loop: the \<open>try\<close> block and, at line 266, the handler when the
  block raised an instance of \<open>Exception\<close>. Anything else raised in the block is not
  caught and leaves the iteration.
\<close>

definition run_attempt :: "world \<Rightarrow> string \<Rightarrow> nat \<Rightarrow> state \<Rightarrow> (exn + flow) \<times> state" where
  "run_attempt w query attempt st =
     (case attempt_body w query attempt st of
        (Inl e, st1) \<Rightarrow> if is_exception e then handle_exception attempt e st1 else (Inl e, st1)
      | (Inr f, st1) \<Rightarrow> (Inr f, st1))"

text \<open>
  \<open>for attempt in range(max_retries)\<close>, then the line after the loop. An exception that
  leaves an iteration leaves the function (\<open>Inl\<close>).
\<close>

fun run_loop :: "world \<Rightarrow> string \<Rightarrow> nat list \<Rightarrow> state \<Rightarrow> (exn + string) \<times> state" where
  "run_loop w query [] st = (Inr max_retries_text, st)"
| "run_loop w query (attempt # attempts) st =
     (case run_attempt w query attempt st of
        (Inl e, st1) \<Rightarrow> (Inl e, st1)
      | (Inr (Return text), st1) \<Rightarrow> (Inr text, st1)
      | (Inr Continue, st1) \<Rightarrow> run_loop w query attempts st1)"

definition run_research :: "world \<Rightarrow> string \<Rightarrow> state \<Rightarrow> (exn + string) \<times> state" where
  "run_research w query st = run_loop w query [0..<max_retries] st"

section \<open>Observations on the effects\<close>

text \<open>The depth of every call made to the search provider, in order.\<close>

fun depths_sent :: "event list \<Rightarrow> string list" where
  "depths_sent [] = []"
| "depths_sent (Search query depth output_type # es) = depth # depths_sent es"
| "depths_sent (e # es) = depths_sent es"

text \<open>The duration of every \<open>time.sleep\<close>, in order.\<close>

fun sleeps :: "event list \<Rightarrow> rat list" where
  "sleeps [] = []"
| "sleeps (Sleep t # es) = t # sleeps es"
| "sleeps (e # es) = sleeps es"

text \<open>The texts the \<open>return\<close> statements inside the loop of \<open>run_research\<close> produce.\<close>

inductive final_text :: "string \<Rightarrow> bool" where
  report: "500 \<le> length raw \<Longrightarrow> final_text raw"
| limited: "length raw < 500 \<Longrightarrow> final_text (limited_content_text raw)"
| rate_limited: "final_text rate_limited_text"
| import_error: "final_text (import_error_text e)"
| configuration_error: "final_text (configuration_error_text e)"
| unknown_error: "final_text (unknown_error_text e)"

text \<open>
  An exception that came from outside the code: the outcome of some kickoff, or raised
  by the provider during some search.
\<close>

definition raised_by_collaborator :: "world \<Rightarrow> exn \<Rightarrow> bool" where
  "raised_by_collaborator w e \<longleftrightarrow>
     (\<exists>tr query. snd (kickoff w tr query) = Inl e)
     \<or> (\<exists>tr query depth output_type. linkup_search w tr query depth output_type = Inl e)"

section \<open>Concrete scenarios\<close>

definition fresh :: state where
  "fresh = \<lparr>search_count = 0, trace = []\<rparr>"

definition env_ok :: "string \<Rightarrow> string option" where
  "env_ok name =
     (if name = ''GEMINI_API_KEY'' then Some ''gemini-key''
      else if name = ''LINKUP_API_KEY'' then Some ''linkup-key''
      else None)"

definition env_without_linkup_key :: "string \<Rightarrow> string option" where
  "env_without_linkup_key name =
     (if name = ''GEMINI_API_KEY'' then Some ''gemini-key'' else None)"

text \<open>
  A world where the search library is installed, the provider answers every search
  with \<open>response\<close>, and every kickoff follows \<open>script\<close>.
\<close>

definition world_of ::
  "(string \<Rightarrow> string option) \<Rightarrow> string \<Rightarrow> (string \<times> string \<times> string) list \<times> (exn + string)
     \<Rightarrow> world" where
  "world_of env response script =
     \<lparr>linkup_available = True, getenv = env,
      linkup_search = (\<lambda>tr query depth output_type. Inr response),
      kickoff = (\<lambda>tr query. script)\<rparr>"

definition runtime_error :: exn where
  "runtime_error =
     \<lparr>exn_type = ''<class 'RuntimeError'>'', exn_msg = ''boom'', is_exception = True\<rparr>"

definition rate_limit_error :: exn where
  "rate_limit_error =
     \<lparr>exn_type = ''<class 'litellm.exceptions.RateLimitError'>'',
      exn_msg = ''Rate limit exceeded'', is_exception = True\<rparr>"

definition keyboard_interrupt :: exn where
  "keyboard_interrupt =
     \<lparr>exn_type = ''<class 'KeyboardInterrupt'>'', exn_msg = [], is_exception = False\<rparr>"

definition five_calls :: "(string \<times> string \<times> string) list" where
  "five_calls =
     [(''overview'', ''standard'', ''searchResults''),
      (''statistics'', ''deep'', ''searchResults''),
      (''news'', ''standard'', ''searchResults''),
      (''experts'', ''deep'', ''sourcedAnswer''),
      (''details'', ''standard'', ''searchResults'')]"

section \<open>Basic facts\<close>

lemma str_int_5: "str_int 5 = ''5''"
  by (simp add: str_int_def str_nat.simps)

lemma str_nat_digit: "n < 10 \<Longrightarrow> str_nat n = [''0123456789'' ! n]"
  by (simp add: str_nat.simps)

lemma attempts_of_run: "[0..<max_retries] = [0, 1, 2]"
  by (simp add: max_retries_def upt_rec)

lemma depths_sent_append: "depths_sent (xs @ ys) = depths_sent xs @ depths_sent ys"
  by (induction xs rule: depths_sent.induct) simp_all

lemma sleeps_append: "sleeps (xs @ ys) = sleeps xs @ sleeps ys"
  by (induction xs rule: sleeps.induct) simp_all

lemma tool_constructed: "LinkUpSearchTool_init w = Inr tool \<Longrightarrow> linkup_available w"
  by (simp add: LinkUpSearchTool_init_def split: if_splits)

lemma world_of_crew: "create_research_crew (world_of env_ok response script) query = Inr ()"
  by (simp add: create_research_crew_def world_of_def env_ok_def falsy_def
      LinkUpSearchTool_init_def)

lemma world_of_kickoff:
  "crew_kickoff (world_of env response ([], outcome)) query st = (outcome, st)"
  by (simp add: crew_kickoff_def world_of_def)

lemma scenario_errors_are_exceptions:
  "is_exception runtime_error" "is_exception rate_limit_error"
  "\<not> is_exception keyboard_interrupt"
  by (simp_all add: runtime_error_def rate_limit_error_def keyboard_interrupt_def)

lemma rate_limit_error_is: "is_rate_limit rate_limit_error"
  by (simp add: is_rate_limit_def rate_limit_error_def lower_def lower_char_def)

lemma runtime_error_is_not: "\<not> is_rate_limit runtime_error"
  by (simp add: is_rate_limit_def runtime_error_def lower_def lower_char_def)

section \<open>How an attempt and the loop can end\<close>

lemma handle_exception_outcome:
  "(\<exists>st'. handle_exception attempt e st = (Inr Continue, st') \<and> attempt < max_retries - 1)
   \<or> (\<exists>t. handle_exception attempt e st = (Inr (Return t), st) \<and> final_text t)"
  by (simp add: handle_exception_def Let_def final_text.intros)

text \<open>What leaves a tool call or the tool calls of a kickoff is not an \<open>Exception\<close>.\<close>

lemma tool_call_raise:
  "LinkUpSearchTool_run w query depth output_type st = (Inl e, st') \<Longrightarrow>
   \<not> is_exception e \<and> raised_by_collaborator w e"
  by (auto simp add: LinkUpSearchTool_run_def raised_by_collaborator_def Let_def
      split: if_splits sum.splits prod.splits)

lemma tool_calls_raise:
  "run_tool_calls w calls st = (Inl e, st') \<Longrightarrow>
   \<not> is_exception e \<and> raised_by_collaborator w e"
proof (induction calls arbitrary: st)
  case Nil
  then show ?case by simp
next
  case (Cons c calls)
  obtain query depth output_type where c: "c = (query, depth, output_type)"
    by (cases c) auto
  show ?case
  proof (cases "LinkUpSearchTool_run w query depth output_type st")
    case (Pair r st1)
    show ?thesis
    proof (cases r)
      case (Inl e1)
      with Pair Cons.prems c have "LinkUpSearchTool_run w query depth output_type st = (Inl e, st')"
        by simp
      then show ?thesis by (rule tool_call_raise)
    next
      case (Inr answer)
      with Pair Cons.prems c have "run_tool_calls w calls st1 = (Inl e, st')"
        by (auto split: prod.splits sum.splits)
      then show ?thesis by (rule Cons.IH)
    qed
  qed
qed

lemma crew_kickoff_raise:
  "crew_kickoff w query st = (Inl e, st') \<Longrightarrow> raised_by_collaborator w e"
proof -
  assume k: "crew_kickoff w query st = (Inl e, st')"
  obtain calls outcome where s: "kickoff w (trace st) query = (calls, outcome)"
    by (cases "kickoff w (trace st) query") auto
  show ?thesis
  proof (cases "run_tool_calls w calls st")
    case (Pair r st1)
    show ?thesis
    proof (cases r)
      case (Inl e1)
      with Pair k s have "run_tool_calls w calls st = (Inl e, st')"
        by (simp add: crew_kickoff_def)
      then show ?thesis using tool_calls_raise by blast
    next
      case (Inr rs)
      with Pair k s have "outcome = Inl e"
        by (simp add: crew_kickoff_def)
      with s have "snd (kickoff w (trace st) query) = Inl e" by simp
      then show ?thesis unfolding raised_by_collaborator_def by blast
    qed
  qed
qed

lemma create_research_crew_raise:
  "create_research_crew w query = Inl e \<Longrightarrow> is_exception e"
  by (auto simp add: create_research_crew_def LinkUpSearchTool_init_def ImportError_def
      ValueError_def split: if_splits)

lemma attempt_body_outcome:
  "(\<exists>e st'. attempt_body w query attempt st = (Inl e, st')
       \<and> (is_exception e \<or> raised_by_collaborator w e))
   \<or> (\<exists>t st'. attempt_body w query attempt st = (Inr (Return t), st') \<and> final_text t)"
proof (cases "create_research_crew w query")
  case (Inl e)
  then show ?thesis
    using create_research_crew_raise [OF Inl] by (simp add: attempt_body_def)
next
  case (Inr crew)
  show ?thesis
  proof (cases "crew_kickoff w query (begin_attempt attempt st)")
    case (Pair r st2)
    show ?thesis
    proof (cases r)
      case (Inl e)
      with Pair have "raised_by_collaborator w e"
        using crew_kickoff_raise by blast
      with Inl Pair Inr show ?thesis by (simp add: attempt_body_def)
    next
      case raw: (Inr raw)
      with Pair Inr show ?thesis
        by (simp add: attempt_body_def final_text.intros not_less)
    qed
  qed
qed

lemma run_attempt_outcome:
  "(\<exists>st'. run_attempt w query attempt st = (Inr Continue, st') \<and> attempt < max_retries - 1)
   \<or> (\<exists>t st'. run_attempt w query attempt st = (Inr (Return t), st') \<and> final_text t)
   \<or> (\<exists>e st'. run_attempt w query attempt st = (Inl e, st')
         \<and> \<not> is_exception e \<and> raised_by_collaborator w e)"
proof -
  from attempt_body_outcome [of w query attempt st] show ?thesis
  proof (elim disjE exE conjE)
    fix e st'
    assume b: "attempt_body w query attempt st = (Inl e, st')" and "is_exception e"
    then have "run_attempt w query attempt st = handle_exception attempt e st'"
      by (simp add: run_attempt_def)
    with handle_exception_outcome [of attempt e st'] show ?thesis by auto
  next
    fix e st'
    assume b: "attempt_body w query attempt st = (Inl e, st')"
      and o: "raised_by_collaborator w e"
    show ?thesis
    proof (cases "is_exception e")
      case True
      with b have "run_attempt w query attempt st = handle_exception attempt e st'"
        by (simp add: run_attempt_def)
      with handle_exception_outcome [of attempt e st'] show ?thesis by auto
    next
      case False
      with b have "run_attempt w query attempt st = (Inl e, st')"
        by (simp add: run_attempt_def)
      with False o show ?thesis by blast
    qed
  next
    fix t st'
    assume "attempt_body w query attempt st = (Inr (Return t), st')" and "final_text t"
    then show ?thesis by (simp add: run_attempt_def)
  qed
qed

text \<open>
  The loop over any list of attempt numbers ends in one of the return texts or is
  left by an exception that is not an \<open>Exception\<close>, unless every attempt of the list
  still had retries left: only then is the line after the loop reached.
\<close>

lemma run_loop_outcome:
  "(\<exists>t st'. run_loop w query attempts st = (Inr t, st') \<and> final_text t)
   \<or> (\<exists>e st'. run_loop w query attempts st = (Inl e, st')
         \<and> \<not> is_exception e \<and> raised_by_collaborator w e)
   \<or> (\<exists>st'. run_loop w query attempts st = (Inr max_retries_text, st'))
       \<and> list_all (\<lambda>attempt. attempt < max_retries - 1) attempts"
proof (induction attempts arbitrary: st)
  case Nil
  then show ?case by simp
next
  case (Cons attempt attempts)
  from run_attempt_outcome [of w query attempt st] show ?case
  proof (elim disjE exE conjE)
    fix st'
    assume "run_attempt w query attempt st = (Inr Continue, st')"
      and "attempt < max_retries - 1"
    with Cons.IH [of st'] show ?thesis by auto
  next
    fix t st'
    assume "run_attempt w query attempt st = (Inr (Return t), st')" and "final_text t"
    then show ?thesis by simp
  next
    fix e st'
    assume "run_attempt w query attempt st = (Inl e, st')"
      and "\<not> is_exception e" and "raised_by_collaborator w e"
    then show ?thesis by simp
  qed
qed

lemma run_research_outcome:
  "(\<exists>t st'. run_research w query st = (Inr t, st') \<and> final_text t)
   \<or> (\<exists>e st'. run_research w query st = (Inl e, st')
         \<and> \<not> is_exception e \<and> raised_by_collaborator w e)"
proof -
  have "\<not> list_all (\<lambda>attempt. attempt < max_retries - 1) [0, 1, 2]"
    by (simp add: max_retries_def)
  with run_loop_outcome [of w query "[0, 1, 2]" st] show ?thesis
    by (simp only: run_research_def attempts_of_run) blast
qed

lemma final_text_not_fallback: "final_text t \<Longrightarrow> t \<noteq> max_retries_text"
  by (induction rule: final_text.induct)
    (auto simp add: max_retries_text_def limited_content_text_def rate_limited_text_def
      import_error_text_def configuration_error_text_def unknown_error_text_def)

lemma final_text_nonempty: "final_text t \<Longrightarrow> t \<noteq> []"
  by (induction rule: final_text.induct)
    (auto simp add: limited_content_text_def rate_limited_text_def
      import_error_text_def configuration_error_text_def unknown_error_text_def)

lemma final_text_forms:
  "final_text t \<Longrightarrow>
   500 \<le> length t
   \<or> (\<exists>raw. length raw < 500 \<and> t = limited_content_text raw)
   \<or> t = rate_limited_text
   \<or> (\<exists>e. t = import_error_text e)
   \<or> (\<exists>e. t = configuration_error_text e)
   \<or> (\<exists>e. t = unknown_error_text e)"
  by (cases rule: final_text.cases) blast+

section \<open>Successful searches\<close>

lemma successful_search_state:
  assumes "fst (LinkUpSearchTool_run w query depth output_type st) = Inr r"
    and "prefix ''Search '' r"
  shows "snd (LinkUpSearchTool_run w query depth output_type st) =
     st\<lparr>search_count := search_count st + 1,
        trace := trace st
          @ [Sleep (3 / 2), Search query (search_depth_of (search_count st)) output_type]\<rparr>"
  using assms
  by (auto simp add: LinkUpSearchTool_run_def get_search_count_def limit_reached_text_def
      sleep_def increment_search_counter_def Let_def split: if_splits sum.splits)

lemma successful_calls_depths:
  "fst (run_tool_calls w calls st) = Inr rs \<Longrightarrow> list_all (prefix ''Search '') rs \<Longrightarrow>
   depths_sent (trace (snd (run_tool_calls w calls st))) =
     depths_sent (trace st)
       @ map (\<lambda>k. search_depth_of (search_count st + int k)) [0..<length calls]"
proof (induction calls arbitrary: st rs)
  case Nil
  then show ?case by simp
next
  case (Cons c calls)
  obtain query depth output_type where c: "c = (query, depth, output_type)"
    by (cases c) auto
  let ?r = "LinkUpSearchTool_run w query depth output_type st"
  from Cons.prems c obtain r rs' where r: "fst ?r = Inr r"
    and rest: "fst (run_tool_calls w calls (snd ?r)) = Inr rs'" and rs: "rs = r # rs'"
    by (auto split: prod.splits sum.splits)
  from Cons.prems(2) rs have ok: "prefix ''Search '' r" and oks: "list_all (prefix ''Search '') rs'"
    by simp_all
  have st1: "snd ?r = st\<lparr>search_count := search_count st + 1,
        trace := trace st
          @ [Sleep (3 / 2), Search query (search_depth_of (search_count st)) output_type]\<rparr>"
    using r ok by (rule successful_search_state)
  have "snd (run_tool_calls w (c # calls) st) = snd (run_tool_calls w calls (snd ?r))"
    using r rest c by (auto split: prod.splits sum.splits)
  then have "depths_sent (trace (snd (run_tool_calls w (c # calls) st))) =
        depths_sent (trace (snd (run_tool_calls w calls (snd ?r))))"
    by simp
  also have "\<dots> = depths_sent (trace (snd ?r))
      @ map (\<lambda>k. search_depth_of (search_count (snd ?r) + int k)) [0..<length calls]"
    using rest oks by (rule Cons.IH)
  also have "\<dots> = depths_sent (trace st)
      @ map (\<lambda>k. search_depth_of (search_count st + int k)) [0..<length (c # calls)]"
    by (simp add: st1 depths_sent_append map_upt_Suc add.assoc del: upt_Suc)
  finally show ?case .
qed

lemma depth_of_index:
  "search_depth_of (int k) = (if Suc k mod 3 = 0 then ''deep'' else ''standard'')"
proof -
  have "(int k + 1) mod 3 = 0 \<longleftrightarrow> Suc k mod 3 = 0" by presburger
  then show ?thesis by (simp add: search_depth_of_def)
qed

section \<open>Verified properties\<close>

text \<open>
  C1. \<open>run_research\<close> catches instances of \<open>Exception\<close> only (line 266). For every
  query, world and starting state a run ends in one of two ways. Either it returns a
  text that is not empty: the report (500 characters or more), the limited-content
  message around a shorter report, the rate-limit message, or the import,
  configuration or unknown error message. Or it is left by an exception that is not an
  instance of \<open>Exception\<close> and that the kickoff or the search provider raised. So when
  these two raise only instances of \<open>Exception\<close>, every run returns such a text.
\<close>

theorem run_research_returns_text:
  "((\<exists>t st'. run_research w query st = (Inr t, st') \<and> t \<noteq> [] \<and>
       (500 \<le> length t
        \<or> (\<exists>raw. length raw < 500 \<and> t = limited_content_text raw)
        \<or> t = rate_limited_text
        \<or> (\<exists>e. t = import_error_text e)
        \<or> (\<exists>e. t = configuration_error_text e)
        \<or> (\<exists>e. t = unknown_error_text e)))
    \<or> (\<exists>e st'. run_research w query st = (Inl e, st') \<and> \<not> is_exception e
          \<and> ((\<exists>tr q. snd (kickoff w tr q) = Inl e)
              \<or> (\<exists>tr q depth output_type. linkup_search w tr q depth output_type = Inl e))))
   \<and> ((\<forall>tr q e. snd (kickoff w tr q) = Inl e \<longrightarrow> is_exception e)
        \<and> (\<forall>tr q depth output_type e.
              linkup_search w tr q depth output_type = Inl e \<longrightarrow> is_exception e)
      \<longrightarrow> (\<exists>t st'. run_research w query st = (Inr t, st') \<and> t \<noteq> [] \<and>
            (500 \<le> length t
             \<or> (\<exists>raw. length raw < 500 \<and> t = limited_content_text raw)
             \<or> t = rate_limited_text
             \<or> (\<exists>e. t = import_error_text e)
             \<or> (\<exists>e. t = configuration_error_text e)
             \<or> (\<exists>e. t = unknown_error_text e))))"
proof -
  let ?returns = "\<exists>t st'. run_research w query st = (Inr t, st') \<and> t \<noteq> [] \<and>
       (500 \<le> length t
        \<or> (\<exists>raw. length raw < 500 \<and> t = limited_content_text raw)
        \<or> t = rate_limited_text
        \<or> (\<exists>e. t = import_error_text e)
        \<or> (\<exists>e. t = configuration_error_text e)
        \<or> (\<exists>e. t = unknown_error_text e))"
  let ?leaves = "\<exists>e st'. run_research w query st = (Inl e, st') \<and> \<not> is_exception e
          \<and> ((\<exists>tr q. snd (kickoff w tr q) = Inl e)
              \<or> (\<exists>tr q depth output_type. linkup_search w tr q depth output_type = Inl e))"
  have either: "?returns \<or> ?leaves"
    using run_research_outcome [of w query st]
  proof (elim disjE exE conjE)
    fix t st'
    assume r: "run_research w query st = (Inr t, st')" and f: "final_text t"
    from r final_text_nonempty [OF f] final_text_forms [OF f] have ?returns
      by blast
    then show ?thesis ..
  next
    fix e st'
    assume "run_research w query st = (Inl e, st')" and "\<not> is_exception e"
      and "raised_by_collaborator w e"
    then have ?leaves
      unfolding raised_by_collaborator_def by blast
    then show ?thesis ..
  qed
  moreover have "?returns"
    if "\<forall>tr q e. snd (kickoff w tr q) = Inl e \<longrightarrow> is_exception e"
      and "\<forall>tr q depth output_type e.
              linkup_search w tr q depth output_type = Inl e \<longrightarrow> is_exception e"
  proof -
    from that have "\<not> ?leaves" by blast
    with either show ?thesis by blast
  qed
  ultimately show ?thesis by blast
qed

theorem run_research_returns_text_witness:
  "\<exists>t st'. run_research (world_of env_ok ''[]'' ([], Inl runtime_error)) ''solar power'' fresh
       = (Inr t, st') \<and> t \<noteq> [] \<and>
     (500 \<le> length t
      \<or> (\<exists>raw. length raw < 500 \<and> t = limited_content_text raw)
      \<or> t = rate_limited_text
      \<or> (\<exists>e. t = import_error_text e)
      \<or> (\<exists>e. t = configuration_error_text e)
      \<or> (\<exists>e. t = unknown_error_text e))"
proof -
  let ?w = "world_of env_ok ''[]'' ([], Inl runtime_error)"
  have k: "\<forall>tr q e. snd (kickoff ?w tr q) = Inl e \<longrightarrow> is_exception e"
    by (simp add: world_of_def scenario_errors_are_exceptions)
  have p: "\<forall>tr q depth output_type e.
      linkup_search ?w tr q depth output_type = Inl e \<longrightarrow> is_exception e"
    by (simp add: world_of_def)
  from run_research_returns_text [of ?w "''solar power''" fresh] k p show ?thesis
    by blast
qed

text \<open>
  A kickoff that is interrupted: the \<open>KeyboardInterrupt\<close> is not an \<open>Exception\<close>, the
  handler of line 266 does not catch it, and it leaves \<open>run_research\<close> at attempt 0.
\<close>

theorem run_research_propagates_counterexample:
  "run_research (world_of env_ok ''[]'' ([], Inl keyboard_interrupt)) ''solar power'' fresh
     = (Inl keyboard_interrupt, fresh)"
proof -
  have "attempt_body (world_of env_ok ''[]'' ([], Inl keyboard_interrupt)) ''solar power'' 0 fresh
      = (Inl keyboard_interrupt, fresh)"
    by (simp add: attempt_body_def world_of_crew world_of_kickoff begin_attempt_def
        reset_search_counter_def fresh_def)
  then have "run_loop (world_of env_ok ''[]'' ([], Inl keyboard_interrupt)) ''solar power''
      (0 # [1, 2]) fresh = (Inl keyboard_interrupt, fresh)"
    by (simp add: run_attempt_def scenario_errors_are_exceptions)
  then show ?thesis
    by (simp only: run_research_def attempts_of_run)
qed

text \<open>
  C2. In a session that starts with the counter at 0, when each of the \<open>N \<le> 5\<close> search
  calls succeeds (it returns, and its text is the \<open>Search n/5 ...\<close> result of line 119), the
  \<open>k\<close>-th call (from 1) is sent to the provider with depth \<open>deep\<close> when \<open>k mod 3 = 0\<close>
  and \<open>standard\<close> otherwise, whatever depth the caller passed.
\<close>

theorem search_depth_schedule:
  assumes "search_count st = 0" and "length calls \<le> 5"
    and "fst (run_tool_calls w calls st) = Inr rs" and "list_all (prefix ''Search '') rs"
  shows "depths_sent (trace (snd (run_tool_calls w calls st))) =
     depths_sent (trace st)
       @ map (\<lambda>k. if k mod 3 = 0 then ''deep'' else ''standard'') [1..<Suc (length calls)]"
proof -
  have "map (\<lambda>k. search_depth_of (search_count st + int k)) [0..<length calls] =
        map ((\<lambda>k. if k mod 3 = 0 then ''deep'' else ''standard'') \<circ> Suc) [0..<length calls]"
    by (simp add: assms(1) depth_of_index)
  also have "\<dots> =
        map (\<lambda>k. if k mod 3 = 0 then ''deep'' else ''standard'') [1..<Suc (length calls)]"
    by (simp only: map_map [symmetric] map_Suc_upt One_nat_def)
  finally show ?thesis
    using successful_calls_depths [OF assms(3) assms(4)] by simp
qed

theorem search_depth_schedule_witness:
  "search_count fresh = 0 \<and> length five_calls \<le> 5
   \<and> depths_sent (trace (snd (run_tool_calls (world_of env_ok ''[]'' ([], Inr [])) five_calls fresh)))
       = [''standard'', ''standard'', ''deep'', ''standard'', ''standard'']"
proof -
  have r: "fst (run_tool_calls (world_of env_ok ''[]'' ([], Inr [])) five_calls fresh) =
      Inr [''Search 1/5 (standard depth):\<newline>[]'', ''Search 2/5 (standard depth):\<newline>[]'',
           ''Search 3/5 (deep depth):\<newline>[]'', ''Search 4/5 (standard depth):\<newline>[]'',
           ''Search 5/5 (standard depth):\<newline>[]'']"
    by (simp add: five_calls_def fresh_def world_of_def env_ok_def LinkUpSearchTool_run_def
        get_search_count_def max_searches_def falsy_def sleep_def search_depth_of_def
        increment_search_counter_def search_header_def Let_def str_int_def str_nat.simps)
  have ok: "list_all (prefix ''Search '')
      [''Search 1/5 (standard depth):\<newline>[]'', ''Search 2/5 (standard depth):\<newline>[]'',
       ''Search 3/5 (deep depth):\<newline>[]'', ''Search 4/5 (standard depth):\<newline>[]'',
       ''Search 5/5 (standard depth):\<newline>[]'']"
    by simp
  have c: "search_count fresh = 0" and n: "length five_calls \<le> 5"
    by (simp_all add: fresh_def five_calls_def)
  have "[1..<Suc (length five_calls)] = [1, 2, 3, 4, 5]"
    by (simp add: five_calls_def upt_rec)
  with search_depth_schedule [OF c n r ok] c n show ?thesis
    by (simp add: fresh_def)
qed

text \<open>
  C3. A tool object exists only when the search library is available (its constructor
  raises otherwise). On such a tool, once the counter has reached the maximum of 5, a
  call returns the soft-limit text (it raises nothing) and leaves the whole state as it
  was: the counter is unchanged and nothing is slept or sent to the provider.
\<close>

theorem search_limit_soft_stop:
  assumes "LinkUpSearchTool_init w = Inr tool" and "search_count st \<ge> max_searches"
  shows "LinkUpSearchTool_run w query depth output_type st =
    (Inr ''Maximum search limit (5) reached. Please analyze existing results.'', st)"
proof -
  have "linkup_available w"
    using assms(1) by (rule tool_constructed)
  moreover have "limit_reached_text =
      ''Maximum search limit (5) reached. Please analyze existing results.''"
    by (simp add: limit_reached_text_def max_searches_def str_int_5)
  ultimately show ?thesis
    using assms(2) by (simp add: LinkUpSearchTool_run_def get_search_count_def)
qed

theorem search_limit_soft_stop_witness:
  "LinkUpSearchTool_init (world_of env_ok ''[]'' ([], Inr [])) = Inr ()
   \<and> search_count (fresh\<lparr>search_count := 5\<rparr>) \<ge> max_searches
   \<and> LinkUpSearchTool_run (world_of env_ok ''[]'' ([], Inr [])) ''one more'' ''deep''
        ''searchResults'' (fresh\<lparr>search_count := 5\<rparr>)
      = (Inr ''Maximum search limit (5) reached. Please analyze existing results.'',
         fresh\<lparr>search_count := 5\<rparr>)"
proof -
  have i: "LinkUpSearchTool_init (world_of env_ok ''[]'' ([], Inr [])) = Inr ()"
    by (simp add: LinkUpSearchTool_init_def world_of_def)
  have c: "search_count (fresh\<lparr>search_count := 5\<rparr>) \<ge> max_searches"
    by (simp add: max_searches_def)
  from search_limit_soft_stop [OF i c] i c show ?thesis by simp
qed

text \<open>
  C4. The waits of the retry controller. An attempt starts by sleeping
  \<open>retry_delay * attempt\<close> when \<open>attempt > 0\<close> and without sleeping when it is attempt
  0, whatever happened before. The handler of a failed attempt that has retries left
  sleeps \<open>retry_delay * (attempt + 1)\<close> for a rate-limit error and the fixed
  \<open>retry_delay\<close> for any other error, and the handler of the last attempt does not
  sleep. The two waits add up: between a failure of attempt \<open>i\<close> and the work of
  attempt \<open>i + 1\<close> the controller sleeps \<open>retry_delay * (i + 1)\<close> twice on the
  rate-limit path, and \<open>retry_delay\<close> and then \<open>retry_delay * (i + 1)\<close> on the generic
  path.
\<close>

theorem backoff_delays:
  "sleeps (trace (begin_attempt attempt st)) =
     sleeps (trace st) @ (if attempt > 0 then [of_nat (retry_delay * attempt)] else [])
   \<and> (attempt < max_retries - 1 \<and> is_rate_limit e \<longrightarrow>
        fst (handle_exception attempt e st) = Inr Continue
        \<and> sleeps (trace (snd (handle_exception attempt e st))) =
            sleeps (trace st) @ [of_nat (retry_delay * (attempt + 1))]
        \<and> sleeps (trace (begin_attempt (Suc attempt) (snd (handle_exception attempt e st)))) =
            sleeps (trace st)
              @ [of_nat (retry_delay * (attempt + 1)), of_nat (retry_delay * Suc attempt)])
   \<and> (attempt < max_retries - 1 \<and> \<not> is_rate_limit e \<longrightarrow>
        fst (handle_exception attempt e st) = Inr Continue
        \<and> sleeps (trace (snd (handle_exception attempt e st))) =
            sleeps (trace st) @ [of_nat retry_delay]
        \<and> sleeps (trace (begin_attempt (Suc attempt) (snd (handle_exception attempt e st)))) =
            sleeps (trace st) @ [of_nat retry_delay, of_nat (retry_delay * Suc attempt)])
   \<and> (\<not> attempt < max_retries - 1 \<longrightarrow>
        sleeps (trace (snd (handle_exception attempt e st))) = sleeps (trace st))"
  by (simp add: begin_attempt_def reset_search_counter_def sleep_def print_def
      handle_exception_def sleeps_append Let_def)

theorem backoff_delays_witness:
  "sleeps (trace (begin_attempt 0 fresh)) = []
   \<and> sleeps (trace (begin_attempt 2 fresh)) = [6]
   \<and> sleeps (trace (snd (handle_exception 1 rate_limit_error fresh))) = [6]
   \<and> sleeps (trace (begin_attempt 2 (snd (handle_exception 1 rate_limit_error fresh)))) = [6, 6]
   \<and> sleeps (trace (snd (handle_exception 1 runtime_error fresh))) = [3]
   \<and> sleeps (trace (begin_attempt 2 (snd (handle_exception 1 runtime_error fresh)))) = [3, 6]
   \<and> sleeps (trace (snd (handle_exception 2 rate_limit_error fresh))) = []"
  using backoff_delays [of 0 fresh rate_limit_error]
    backoff_delays [of 2 fresh rate_limit_error]
    backoff_delays [of 1 fresh rate_limit_error]
    backoff_delays [of 1 fresh runtime_error]
    rate_limit_error_is runtime_error_is_not
  by (simp add: max_retries_def retry_delay_def fresh_def numeral_2_eq_2)

text \<open>
  Three failing attempts: a generic error makes the controller sleep 3, 3, 3, 6, so it
  waits 6 before attempt 1 and 9 before attempt 2, not \<open>retry_delay * i\<close>; a rate-limit
  error makes it sleep 3, 3, 6, 6, so it waits 12 before attempt 2, not
  \<open>retry_delay * (i + 1)\<close>.
\<close>

theorem backoff_counterexample:
  "sleeps (trace (snd (run_research (world_of env_ok ''[]'' ([], Inl runtime_error))
       ''solar power'' fresh))) = [3, 3, 3, 6]
   \<and> sum_list (take 2 (sleeps (trace (snd (run_research
         (world_of env_ok ''[]'' ([], Inl runtime_error)) ''solar power'' fresh)))))
       \<noteq> of_nat (retry_delay * 1)
   \<and> sum_list (drop 2 (sleeps (trace (snd (run_research
         (world_of env_ok ''[]'' ([], Inl runtime_error)) ''solar power'' fresh)))))
       \<noteq> of_nat (retry_delay * 2)
   \<and> sleeps (trace (snd (run_research (world_of env_ok ''[]'' ([], Inl rate_limit_error))
       ''solar power'' fresh))) = [3, 3, 6, 6]
   \<and> sum_list (drop 2 (sleeps (trace (snd (run_research
         (world_of env_ok ''[]'' ([], Inl rate_limit_error)) ''solar power'' fresh)))))
       \<noteq> of_nat (retry_delay * (2 + 1))"
proof -
  have b: "attempt_body (world_of env_ok ''[]'' ([], Inl e)) ''solar power'' attempt st
      = (Inl e, begin_attempt attempt st)" for e attempt st
    by (simp add: attempt_body_def world_of_crew world_of_kickoff)
  have g: "sleeps (trace (snd (run_research (world_of env_ok ''[]'' ([], Inl runtime_error))
       ''solar power'' fresh))) = [3, 3, 3, 6]"
    unfolding run_research_def attempts_of_run
    by (simp add: run_attempt_def b handle_exception_def runtime_error_is_not
        scenario_errors_are_exceptions
        begin_attempt_def reset_search_counter_def sleep_def print_def fresh_def
        max_retries_def retry_delay_def sleeps_append str_nat_digit)
  have r: "sleeps (trace (snd (run_research (world_of env_ok ''[]'' ([], Inl rate_limit_error))
       ''solar power'' fresh))) = [3, 3, 6, 6]"
    unfolding run_research_def attempts_of_run
    by (simp add: run_attempt_def b handle_exception_def rate_limit_error_is
        scenario_errors_are_exceptions
        begin_attempt_def reset_search_counter_def sleep_def print_def fresh_def
        max_retries_def retry_delay_def sleeps_append str_nat_digit)
  show ?thesis
    by (simp add: g r retry_delay_def)
qed

text \<open>
  C5. When a search reaches the provider and the provider answers \<open>s\<close>, the returned
  text is the header \<open>Search n/5 (d depth):\<close> followed by \<open>s\<close> itself when \<open>s\<close> has at
  most 4000 characters, and otherwise by the first 4000 characters of \<open>s\<close> and the
  marker that names the truncation, the number \<open>n\<close> of the search and the depth \<open>d\<close>.
\<close>

theorem search_result_truncation:
  assumes "LinkUpSearchTool_init w = Inr tool"
    and "search_count st < max_searches"
    and "getenv w ''LINKUP_API_KEY'' = Some key" and "key \<noteq> []"
    and "linkup_search w (trace st @ [Sleep (3 / 2)]) query
           (search_depth_of (search_count st)) output_type = Inr s"
  shows "fst (LinkUpSearchTool_run w query depth output_type st) =
     Inr (''Search '' @ str_int (search_count st + 1) @ ''/5 (''
       @ search_depth_of (search_count st) @ '' depth):\<newline>''
       @ (if length s > 4000
          then take 4000 s
                 @ ''\<newline>... [Results truncated at 4000 chars for efficiency, search ''
                 @ str_int (search_count st + 1) @ '' using ''
                 @ search_depth_of (search_count st) @ '' depth]''
          else s))"
proof -
  have "linkup_available w"
    using assms(1) by (rule tool_constructed)
  with assms(2-5) show ?thesis
    by (simp add: LinkUpSearchTool_run_def get_search_count_def falsy_def sleep_def
        increment_search_counter_def search_header_def truncation_marker_def Let_def
        max_searches_def str_int_5)
qed

theorem search_result_truncation_witness:
  "fst (LinkUpSearchTool_run (world_of env_ok (replicate 4001 (CHR ''x'')) ([], Inr []))
          ''overview'' ''deep'' ''searchResults'' fresh)
     = Inr (''Search 1/5 (standard depth):\<newline>'' @ replicate 4000 (CHR ''x'')
         @ ''\<newline>... [Results truncated at 4000 chars for efficiency, search 1 using standard depth]'')
   \<and> fst (LinkUpSearchTool_run (world_of env_ok (replicate 4000 (CHR ''x'')) ([], Inr []))
          ''overview'' ''deep'' ''searchResults'' fresh)
     = Inr (''Search 1/5 (standard depth):\<newline>'' @ replicate 4000 (CHR ''x''))"
proof -
  have i: "LinkUpSearchTool_init (world_of env_ok response ([], Inr [])) = Inr ()" for response
    by (simp add: LinkUpSearchTool_init_def world_of_def)
  have c: "search_count fresh < max_searches"
    by (simp add: fresh_def max_searches_def)
  have k: "getenv (world_of env_ok response ([], Inr [])) ''LINKUP_API_KEY'' = Some ''linkup-key''"
    for response
    by (simp add: world_of_def env_ok_def)
  have n: "''linkup-key'' \<noteq> []"
    by simp
  have p: "linkup_search (world_of env_ok response ([], Inr [])) (trace fresh @ [Sleep (3 / 2)])
      ''overview'' (search_depth_of (search_count fresh)) ''searchResults'' = Inr response"
    for response
    by (simp add: world_of_def)
  have one: "str_int (search_count fresh + 1) = ''1''"
    by (simp add: fresh_def str_int_def str_nat.simps)
  have d: "search_depth_of (search_count fresh) = ''standard''"
    by (simp add: fresh_def search_depth_of_def)
  from search_result_truncation [OF i c k n p, of "replicate 4001 (CHR ''x'')" "''deep''"]
    search_result_truncation [OF i c k n p, of "replicate 4000 (CHR ''x'')" "''deep''"]
  show ?thesis
    by (simp add: one d)
qed

text \<open>
  C6. \<open>reset_search_counter\<close> sets the counter to exactly 0 and resetting twice is
  resetting once. Every attempt, the first and each retry, starts with the reset: the
  counter is 0 when the crew of the attempt is built and run, and an attempt (and so
  the whole run) does the same whatever value the counter had before it.
\<close>

theorem reset_fresh_budget:
  "search_count (reset_search_counter st) = 0
   \<and> reset_search_counter (reset_search_counter st) = reset_search_counter st
   \<and> search_count (begin_attempt attempt st) = 0
   \<and> run_attempt w query attempt (st\<lparr>search_count := n\<rparr>) = run_attempt w query attempt st
   \<and> run_research w query (st\<lparr>search_count := n\<rparr>) = run_research w query st"
proof -
  have a: "run_attempt w query i (st\<lparr>search_count := n\<rparr>) = run_attempt w query i st" for i
    by (simp add: run_attempt_def attempt_body_def begin_attempt_def reset_search_counter_def)
  have "run_loop w query (0 # [1, 2]) (st\<lparr>search_count := n\<rparr>) = run_loop w query (0 # [1, 2]) st"
    by (simp only: run_loop.simps a)
  then have r: "run_research w query (st\<lparr>search_count := n\<rparr>) = run_research w query st"
    by (simp only: run_research_def attempts_of_run)
  have "search_count (begin_attempt attempt st) = 0"
    by (simp add: begin_attempt_def reset_search_counter_def sleep_def Let_def)
  with a r show ?thesis
    by (simp add: reset_search_counter_def)
qed

theorem reset_fresh_budget_witness:
  "search_count (reset_search_counter (fresh\<lparr>search_count := 4\<rparr>)) = 0
   \<and> search_count (begin_attempt 2 (fresh\<lparr>search_count := 4\<rparr>)) = 0
   \<and> run_research (world_of env_ok ''[]'' (five_calls, Inl rate_limit_error)) ''solar power''
        (fresh\<lparr>search_count := 4\<rparr>)
      = run_research (world_of env_ok ''[]'' (five_calls, Inl rate_limit_error)) ''solar power''
        fresh"
  using reset_fresh_budget [of "fresh\<lparr>search_count := 4\<rparr>" 2
      "world_of env_ok ''[]'' (five_calls, Inl rate_limit_error)" "''solar power''" 4]
    reset_fresh_budget [of fresh 2
      "world_of env_ok ''[]'' (five_calls, Inl rate_limit_error)" "''solar power''" 4]
  by simp

text \<open>
  C7. When an attempt builds its crew and the kickoff returns a report of fewer than
  500 characters, the loop returns at that attempt, whichever attempt it is: the text
  is the limited-content message with the report inside, unchanged, and nothing is
  raised. \<open>run_research\<close> is this loop on the attempts 0, 1, 2.
\<close>

theorem limited_content_returned:
  assumes "create_research_crew w query = Inr crew"
    and "crew_kickoff w query (begin_attempt attempt st) = (Inr raw, st')"
    and "length raw < 500"
  shows "run_loop w query (attempt # attempts) st =
     (Inr (''Research completed but content seems limited. Here's what was found:\<newline>\<newline>''
        @ raw
        @ ''\<newline>\<newline>[Note: For more comprehensive results, try refining your query or checking API limits]''),
      st')"
  using assms
  by (simp add: run_attempt_def attempt_body_def limited_content_text_def)

theorem limited_content_returned_witness:
  "length (replicate 300 (CHR ''r'')) < 500
   \<and> run_research (world_of env_ok ''[]'' ([], Inr (replicate 300 (CHR ''r'')))) ''solar power'' fresh
      = (Inr (''Research completed but content seems limited. Here's what was found:\<newline>\<newline>''
           @ replicate 300 (CHR ''r'')
           @ ''\<newline>\<newline>[Note: For more comprehensive results, try refining your query or checking API limits]''),
         fresh)"
proof -
  let ?w = "world_of env_ok ''[]'' ([], Inr (replicate 300 (CHR ''r'')))"
  have b: "begin_attempt 0 fresh = fresh"
    by (simp add: begin_attempt_def reset_search_counter_def fresh_def)
  have k: "crew_kickoff ?w ''solar power'' (begin_attempt 0 fresh)
      = (Inr (replicate 300 (CHR ''r'')), fresh)"
    by (simp add: b world_of_kickoff)
  have n: "length (replicate 300 (CHR ''r'')) < 500"
    by simp
  from limited_content_returned [OF world_of_crew k n, of "[1, 2]"] n show ?thesis
    by (simp only: run_research_def attempts_of_run)
qed

text \<open>
  C8. When the search library and the language-model key are present and the search
  key \<open>LINKUP_API_KEY\<close> is missing (unset or empty), every attempt fails in
  \<open>create_research_crew\<close> with the \<open>ValueError\<close> that names the variable, before any
  search or kickoff. The controller makes all three attempts: after attempts 0 and 1
  it prints and sleeps the fixed \<open>retry_delay\<close>, and attempts 1 and 2 start with their
  own sleep of 3 and 6. The run returns, without raising, the text
  \<open>Configuration Error: LINKUP_API_KEY environment variable not set\<close>: the label and
  the message of the exception, and nothing after it.
\<close>

theorem missing_search_credential:
  assumes "linkup_available w"
    and "\<not> falsy (getenv w ''GEMINI_API_KEY'')"
    and "falsy (getenv w ''LINKUP_API_KEY'')"
  shows "attempt_body w query attempt st =
       (Inl (ValueError ''LINKUP_API_KEY environment variable not set''),
        begin_attempt attempt st)
     \<and> run_research w query st =
       (Inr ''Configuration Error: LINKUP_API_KEY environment variable not set'',
        st\<lparr>search_count := 0,
           trace := trace st
             @ [Print ''Error on attempt 1, retrying in 3 seconds...'', Sleep 3, Sleep 3,
                Print ''Error on attempt 2, retrying in 3 seconds...'', Sleep 3, Sleep 6]\<rparr>)"
proof -
  let ?e = "ValueError ''LINKUP_API_KEY environment variable not set''"
  have b: "attempt_body w query i s = (Inl ?e, begin_attempt i s)" for i s
    using assms by (simp add: attempt_body_def create_research_crew_def)
  have n: "\<not> is_rate_limit ?e"
    by (simp add: is_rate_limit_def ValueError_def lower_def lower_char_def)
  have v: "\<not> contains ''ImportError'' (exn_type ?e)" "contains ''ValueError'' (exn_type ?e)"
    "is_exception ?e"
    by (simp_all add: ValueError_def)
  have m: "configuration_error_text ?e =
      ''Configuration Error: LINKUP_API_KEY environment variable not set''"
    by (simp add: configuration_error_text_def ValueError_def)
  have "run_loop w query [0, 1, 2] st =
       (Inr ''Configuration Error: LINKUP_API_KEY environment variable not set'',
        st\<lparr>search_count := 0,
           trace := trace st
             @ [Print ''Error on attempt 1, retrying in 3 seconds...'', Sleep 3, Sleep 3,
                Print ''Error on attempt 2, retrying in 3 seconds...'', Sleep 3, Sleep 6]\<rparr>)"
    by (simp add: run_attempt_def b handle_exception_def n v m begin_attempt_def
        reset_search_counter_def sleep_def print_def max_retries_def retry_delay_def
        str_nat_digit)
  then show ?thesis
    by (simp add: b run_research_def attempts_of_run)
qed

theorem missing_search_credential_witness:
  "linkup_available (world_of env_without_linkup_key ''[]'' (five_calls, Inr []))
   \<and> falsy (getenv (world_of env_without_linkup_key ''[]'' (five_calls, Inr [])) ''LINKUP_API_KEY'')
   \<and> run_research (world_of env_without_linkup_key ''[]'' (five_calls, Inr [])) ''solar power'' fresh
     = (Inr ''Configuration Error: LINKUP_API_KEY environment variable not set'',
        \<lparr>search_count = 0,
         trace = [Print ''Error on attempt 1, retrying in 3 seconds...'', Sleep 3, Sleep 3,
                  Print ''Error on attempt 2, retrying in 3 seconds...'', Sleep 3, Sleep 6]\<rparr>)"
proof -
  let ?w = "world_of env_without_linkup_key ''[]'' (five_calls, Inr [])"
  have a: "linkup_available ?w"
    by (simp add: world_of_def)
  have g: "\<not> falsy (getenv ?w ''GEMINI_API_KEY'')"
    by (simp add: world_of_def env_without_linkup_key_def falsy_def)
  have l: "falsy (getenv ?w ''LINKUP_API_KEY'')"
    by (simp add: world_of_def env_without_linkup_key_def falsy_def)
  from missing_search_credential [OF a g l, of "''solar power''" 0 fresh] a l show ?thesis
    by (simp add: fresh_def)
qed

text \<open>
  With the search key missing, the three attempts are separated by sleeps of 3, 3 and
  3, 6 (6 and then 9 between attempts, not one fixed delay), and the returned text is
  exactly the label and the exception's message: it has none of the remediation lines
  that the import-error and unknown-error messages carry.
\<close>

theorem missing_search_credential_counterexample:
  "fst (run_research (world_of env_without_linkup_key ''[]'' ([], Inr [])) ''solar power'' fresh)
     = Inr (''Configuration Error: ''
         @ exn_msg (ValueError ''LINKUP_API_KEY environment variable not set''))
   \<and> fst (run_research (world_of env_without_linkup_key ''[]'' ([], Inr [])) ''solar power'' fresh)
     = Inr ''Configuration Error: LINKUP_API_KEY environment variable not set''
   \<and> \<not> contains ''Please''
         ''Configuration Error: LINKUP_API_KEY environment variable not set''
   \<and> \<not> contains ''Troubleshooting tips''
         ''Configuration Error: LINKUP_API_KEY environment variable not set''
   \<and> sleeps (trace (snd (run_research (world_of env_without_linkup_key ''[]'' ([], Inr []))
         ''solar power'' fresh))) = [3, 3, 3, 6]"
proof -
  let ?w = "world_of env_without_linkup_key ''[]'' ([], Inr [])"
  let ?e = "ValueError ''LINKUP_API_KEY environment variable not set''"
  have b: "attempt_body ?w ''solar power'' i s = (Inl ?e, begin_attempt i s)" for i s
    by (simp add: attempt_body_def create_research_crew_def world_of_def
        env_without_linkup_key_def falsy_def)
  have n: "\<not> is_rate_limit ?e"
    by (simp add: is_rate_limit_def ValueError_def lower_def lower_char_def)
  have v: "\<not> contains ''ImportError'' (exn_type ?e)" "contains ''ValueError'' (exn_type ?e)"
    "is_exception ?e"
    by (simp_all add: ValueError_def)
  have "run_loop ?w ''solar power'' [0, 1, 2] fresh =
       (Inr (configuration_error_text ?e),
        \<lparr>search_count = 0,
         trace = [Print ''Error on attempt 1, retrying in 3 seconds...'', Sleep 3, Sleep 3,
                  Print ''Error on attempt 2, retrying in 3 seconds...'', Sleep 3, Sleep 6]\<rparr>)"
    by (simp add: run_attempt_def b handle_exception_def n v begin_attempt_def
        reset_search_counter_def sleep_def print_def max_retries_def retry_delay_def
        str_nat_digit fresh_def)
  then show ?thesis
    by (simp add: run_research_def attempts_of_run configuration_error_text_def ValueError_def)
qed

text \<open>
  C9. The \<open>depth\<close> argument of the search operation is never read: two calls that
  differ only in it, in the same world and state, have the same result (the same text,
  or the same exception passing through) and leave the same state, so the same depth
  was sent to the provider.
\<close>

theorem depth_argument_ignored:
  "LinkUpSearchTool_run w query depth1 output_type st =
   LinkUpSearchTool_run w query depth2 output_type st"
  by (simp add: LinkUpSearchTool_run_def)

theorem depth_argument_ignored_witness:
  "LinkUpSearchTool_run (world_of env_ok ''[]'' ([], Inr [])) ''overview'' ''deep''
     ''searchResults'' fresh
   = (Inr ''Search 1/5 (standard depth):\<newline>[]'',
      \<lparr>search_count = 1,
       trace = [Sleep (3 / 2), Search ''overview'' ''standard'' ''searchResults'']\<rparr>)"
proof -
  have "LinkUpSearchTool_run (world_of env_ok ''[]'' ([], Inr [])) ''overview'' ''standard''
     ''searchResults'' fresh
   = (Inr ''Search 1/5 (standard depth):\<newline>[]'',
      \<lparr>search_count = 1,
       trace = [Sleep (3 / 2), Search ''overview'' ''standard'' ''searchResults'']\<rparr>)"
    by (simp add: fresh_def world_of_def env_ok_def LinkUpSearchTool_run_def
        get_search_count_def max_searches_def falsy_def sleep_def search_depth_of_def
        increment_search_counter_def search_header_def Let_def str_int_def str_nat.simps)
  with depth_argument_ignored [of "world_of env_ok ''[]'' ([], Inr [])" "''overview''"
      "''deep''" "''searchResults''" fresh "''standard''"]
  show ?thesis by simp
qed

text \<open>
  C10. The line after the loop is never reached: the last attempt (number
  \<open>max_retries - 1\<close>) never continues the loop, it ends in a \<open>return\<close> or is left by an
  exception that is not an \<open>Exception\<close>, and no run of \<open>run_research\<close> returns the text
  \<open>Maximum retries exceeded. ...\<close>.
\<close>

theorem fallback_unreachable:
  "((\<exists>t st'. run_attempt w query (max_retries - 1) st = (Inr (Return t), st'))
    \<or> (\<exists>e st'. run_attempt w query (max_retries - 1) st = (Inl e, st')
          \<and> \<not> is_exception e))
   \<and> fst (run_research w query st) \<noteq> Inr max_retries_text"
proof
  from run_attempt_outcome [of w query "max_retries - 1" st]
  show "(\<exists>t st'. run_attempt w query (max_retries - 1) st = (Inr (Return t), st'))
    \<or> (\<exists>e st'. run_attempt w query (max_retries - 1) st = (Inl e, st')
          \<and> \<not> is_exception e)"
    by auto
next
  from run_research_outcome [of w query st]
  show "fst (run_research w query st) \<noteq> Inr max_retries_text"
  proof (elim disjE exE conjE)
    fix t st'
    assume "run_research w query st = (Inr t, st')" and f: "final_text t"
    with final_text_not_fallback [OF f] show ?thesis by simp
  next
    fix e st'
    assume "run_research w query st = (Inl e, st')"
    then show ?thesis by simp
  qed
qed

theorem fallback_unreachable_witness:
  "fst (run_research (world_of env_ok ''[]'' ([], Inl rate_limit_error)) ''solar power'' fresh)
     \<noteq> Inr max_retries_text
   \<and> fst (run_research (world_of env_ok ''[]'' ([], Inl keyboard_interrupt)) ''solar power'' fresh)
     \<noteq> Inr max_retries_text"
  using fallback_unreachable
    [of "world_of env_ok ''[]'' ([], Inl rate_limit_error)" "''solar power''" fresh]
    fallback_unreachable
    [of "world_of env_ok ''[]'' ([], Inl keyboard_interrupt)" "''solar power''" fresh]
  by simp

end
